theory Spec2Isabelle
  imports Complex_Main
begin

section \<open>JavaScript numbers\<close>

text \<open>
  Every numeric value of the dashboard is a JavaScript \<^verbatim>\<open>number\<close>, a binary64 double.
  A finite value is modelled by the real it denotes; the three values that are not finite
  are kept apart, because the code never raises on a division by zero: \<^verbatim>\<open>x / 0\<close> is
  \<^verbatim>\<open>Infinity\<close>, \<^verbatim>\<open>-Infinity\<close> or \<^verbatim>\<open>NaN\<close>, and the value flows on through the later
  arithmetic.

  The operations of this section are exact: each gives the value of the JavaScript
  operator before that value is rounded to a double. The rounding is \<open>fl64\<close> of the next
  section, and the ledger is written over a rounding \<open>fl\<close> that is applied to every
  arithmetic result, so that the ledger in binary64 (\<open>fl64\<close>) and the ledger in exact
  arithmetic (no rounding) are two instances of one transcription. A statement about the
  exact ledger is a statement about the code only where no result is rounded; integers up
  to \<open>2 ^ 53\<close>, such as a position built from trades of quantity 1, are never rounded
  (\<open>round64_of_int\<close>, \<open>position_of_unit_trades\<close>).
  The sign of zero is not modelled: a zero divisor is taken as \<^verbatim>\<open>+0\<close>.
\<close>

datatype number = Fin real | PosInf | NegInf | NaN

fun num_neg :: "number \<Rightarrow> number" where
  "num_neg (Fin a) = Fin (- a)"
| "num_neg PosInf = NegInf"
| "num_neg NegInf = PosInf"
| "num_neg NaN = NaN"

fun num_add :: "number \<Rightarrow> number \<Rightarrow> number" where
  "num_add (Fin a) (Fin b) = Fin (a + b)"
| "num_add NaN _ = NaN"
| "num_add _ NaN = NaN"
| "num_add PosInf NegInf = NaN"
| "num_add NegInf PosInf = NaN"
| "num_add PosInf _ = PosInf"
| "num_add _ PosInf = PosInf"
| "num_add NegInf _ = NegInf"
| "num_add _ NegInf = NegInf"

definition num_sub :: "number \<Rightarrow> number \<Rightarrow> number" where
  "num_sub a b = num_add a (num_neg b)"

fun num_mul :: "number \<Rightarrow> number \<Rightarrow> number" where
  "num_mul (Fin a) (Fin b) = Fin (a * b)"
| "num_mul NaN _ = NaN"
| "num_mul _ NaN = NaN"
| "num_mul PosInf (Fin b) = (if b = 0 then NaN else if 0 < b then PosInf else NegInf)"
| "num_mul NegInf (Fin b) = (if b = 0 then NaN else if 0 < b then NegInf else PosInf)"
| "num_mul (Fin a) PosInf = (if a = 0 then NaN else if 0 < a then PosInf else NegInf)"
| "num_mul (Fin a) NegInf = (if a = 0 then NaN else if 0 < a then NegInf else PosInf)"
| "num_mul PosInf PosInf = PosInf"
| "num_mul PosInf NegInf = NegInf"
| "num_mul NegInf PosInf = NegInf"
| "num_mul NegInf NegInf = PosInf"

text \<open>A zero divisor is taken as \<^verbatim>\<open>+0\<close>.\<close>

fun num_div :: "number \<Rightarrow> number \<Rightarrow> number" where
  "num_div (Fin a) (Fin b) =
     (if b = 0 then (if a = 0 then NaN else if 0 < a then PosInf else NegInf)
      else Fin (a / b))"
| "num_div NaN _ = NaN"
| "num_div _ NaN = NaN"
| "num_div (Fin a) PosInf = Fin 0"
| "num_div (Fin a) NegInf = Fin 0"
| "num_div PosInf (Fin b) = (if 0 \<le> b then PosInf else NegInf)"
| "num_div NegInf (Fin b) = (if 0 \<le> b then NegInf else PosInf)"
| "num_div PosInf PosInf = NaN"
| "num_div PosInf NegInf = NaN"
| "num_div NegInf PosInf = NaN"
| "num_div NegInf NegInf = NaN"

text \<open>The comparisons \<^verbatim>\<open><\<close> and \<^verbatim>\<open><=\<close>; every comparison with \<^verbatim>\<open>NaN\<close> is false.\<close>

fun num_less :: "number \<Rightarrow> number \<Rightarrow> bool" where
  "num_less (Fin a) (Fin b) = (a < b)"
| "num_less NaN _ = False"
| "num_less _ NaN = False"
| "num_less _ NegInf = False"
| "num_less PosInf _ = False"
| "num_less NegInf _ = True"
| "num_less _ PosInf = True"

fun num_le :: "number \<Rightarrow> number \<Rightarrow> bool" where
  "num_le (Fin a) (Fin b) = (a \<le> b)"
| "num_le NaN _ = False"
| "num_le _ NaN = False"
| "num_le NegInf _ = True"
| "num_le _ PosInf = True"
| "num_le _ NegInf = False"
| "num_le PosInf _ = False"

definition num_gt :: "number \<Rightarrow> number \<Rightarrow> bool" where
  "num_gt a b = num_less b a"


fun is_finite :: "number \<Rightarrow> bool" where
  "is_finite (Fin a) = True"
| "is_finite _ = False"

section \<open>Rounding to binary64\<close>

text \<open>\<open>pow2 e\<close> is 2 to the power \<open>e\<close>, for an integer \<open>e\<close> of either sign.\<close>

definition pow2 :: "int \<Rightarrow> real" where
  "pow2 e = (if 0 \<le> e then 2 ^ nat e else 1 / 2 ^ nat (- e))"

text \<open>
  The binary exponent of a positive real: the \<open>e\<close> with \<open>pow2 e \<le> x < pow2 (e + 1)\<close>,
  found by halving or doubling \<open>x\<close> until it lies between 1 and 2.
\<close>

function ilog2 :: "real \<Rightarrow> int" where
  "ilog2 x = (if x \<le> 0 then 0 else if 2 \<le> x then ilog2 (x / 2) + 1
              else if x < 1 then ilog2 (x * 2) - 1 else 0)"
  by pat_completeness auto
termination
proof (relation "measure (\<lambda>x. nat \<bar>\<lfloor>log 2 x\<rfloor>\<bar>)")
  show "wf (measure (\<lambda>x. nat \<bar>\<lfloor>log 2 x\<rfloor>\<bar>))" by simp
next
  fix x :: real
  assume "\<not> x \<le> 0" "2 \<le> x"
  then have l: "log 2 (x / 2) = log 2 x - 1" by (simp add: log_divide_pos)
  from \<open>2 \<le> x\<close> have "1 \<le> log 2 x" by (simp add: le_log_iff)
  then have "1 \<le> \<lfloor>log 2 x\<rfloor>" by linarith
  then show "(x / 2, x) \<in> measure (\<lambda>x. nat \<bar>\<lfloor>log 2 x\<rfloor>\<bar>)"
    by (simp add: l)
next
  fix x :: real
  assume "\<not> x \<le> 0" "\<not> 2 \<le> x" "x < 1"
  then have l: "log 2 (x * 2) = log 2 x + 1" by (simp add: log_mult_pos)
  from \<open>\<not> x \<le> 0\<close> \<open>x < 1\<close> have "log 2 x < 0" by simp
  then have "\<lfloor>log 2 x\<rfloor> \<le> - 1" by linarith
  then show "(x * 2, x) \<in> measure (\<lambda>x. nat \<bar>\<lfloor>log 2 x\<rfloor>\<bar>)"
    by (simp add: l)
qed

declare ilog2.simps [simp del]

text \<open>Rounding a real to the nearest integer, a tie going to the even one.\<close>

definition rne :: "real \<Rightarrow> int" where
  "rne r = (let f = \<lfloor>r\<rfloor>; d = r - of_int f
            in if d < 1 / 2 then f else if 1 / 2 < d then f + 1
               else if even f then f else f + 1)"

text \<open>
  The double nearest to a real, ties to even (the rounding of every JavaScript arithmetic
  operator). A double has a significand of 53 bits and an exponent from -1022 to 1023:
  in the binade of exponent \<open>e\<close> the doubles are the multiples of \<open>pow2 (e - 52)\<close>; below
  \<open>pow2 (- 1022)\<close> they are the multiples of \<open>pow2 (- 1074)\<close>; a magnitude that rounds to
  \<open>pow2 1024\<close> or more becomes an infinity.
\<close>

definition round64 :: "real \<Rightarrow> number" where
  "round64 x =
     (if x = 0 then Fin 0
      else (let e = max (ilog2 \<bar>x\<bar>) (- 1022);
                q = pow2 (e - 52);
                y = of_int (rne (\<bar>x\<bar> / q)) * q
            in if pow2 1024 \<le> y then (if 0 < x then PosInf else NegInf)
               else Fin (if 0 < x then y else - y)))"

fun fl64 :: "number \<Rightarrow> number" where
  "fl64 (Fin a) = round64 a"
| "fl64 PosInf = PosInf"
| "fl64 NegInf = NegInf"
| "fl64 NaN = NaN"

section \<open>Data model (trading-dashboard.tsx)\<close>

datatype signal_type = BUY | SELL | HOLD

datatype trade_type = TradeBUY | TradeSELL

text \<open>Timestamps are readings of \<^verbatim>\<open>Date.now()\<close>: whole milliseconds.\<close>

record Signal =
  signal_type :: signal_type
  signal_price :: number
  signal_timestamp :: int

record Trade =
  trade_type :: trade_type
  price :: number
  timestamp :: int
  quantity :: number

record StockData =
  symbol :: string
  name :: string
  currentPrice :: number
  previousPrice :: number
  change :: number
  changePercent :: number

section \<open>Position ledger: \<^verbatim>\<open>calculateProfit\<close>\<close>

text \<open>The five local variables of \<^verbatim>\<open>calculateProfit\<close>.\<close>

record ledger =
  currentProfit :: number
  position :: number
  averageEntryPrice :: number
  totalInvested :: number
  totalReturned :: number

definition ledger0 :: ledger where
  "ledger0 = \<lparr>currentProfit = Fin 0, position = Fin 0, averageEntryPrice = Fin 0,
              totalInvested = Fin 0, totalReturned = Fin 0\<rparr>"

text \<open>The local constant \<^verbatim>\<open>totalShares\<close> of the BUY branch: the divisor of the average.\<close>

definition totalShares :: "ledger \<Rightarrow> Trade \<Rightarrow> number" where
  "totalShares l t = num_add (position l) (quantity t)"

text \<open>
  The body of the \<^verbatim>\<open>forEach\<close> callback, one trade at a time; \<open>fl\<close> rounds the result of
  each arithmetic operator.
\<close>

definition tradeStepWith :: "(number \<Rightarrow> number) \<Rightarrow> ledger \<Rightarrow> Trade \<Rightarrow> ledger" where
  "tradeStepWith fl l t =
     (case trade_type t of
        TradeBUY \<Rightarrow>
          (let newShares = quantity t;
               newCost = fl (num_mul (price t) newShares);
               invested = fl (num_add (totalInvested l) newCost);
               avg = fl (num_div
                           (fl (num_add (fl (num_mul (averageEntryPrice l) (position l)))
                                        newCost))
                           (fl (totalShares l t)))
           in l\<lparr>totalInvested := invested, averageEntryPrice := avg,
                position := fl (num_add (position l) newShares)\<rparr>)
      | TradeSELL \<Rightarrow>
          (let saleValue = fl (num_mul (price t) (quantity t));
               returned = fl (num_add (totalReturned l) saleValue);
               costBasis = fl (num_mul (averageEntryPrice l) (quantity t))
           in l\<lparr>totalReturned := returned,
                currentProfit := fl (num_add (currentProfit l)
                                             (fl (num_sub saleValue costBasis))),
                position := fl (num_sub (position l) (quantity t))\<rparr>))"

text \<open>The loop over the trade log, from the ledger of zeros.\<close>

definition replayWith :: "(number \<Rightarrow> number) \<Rightarrow> Trade list \<Rightarrow> ledger" where
  "replayWith fl tradeList = foldl (tradeStepWith fl) ledger0 tradeList"

text \<open>
  \<^verbatim>\<open>calculateProfit\<close> reads \<^verbatim>\<open>initialInvestment\<close> from the component state and ends in
  \<^verbatim>\<open>setProfit(currentProfit)\<close> and \<^verbatim>\<open>setProfitPercent(profitPercentage)\<close>: the model takes
  the former as an argument and returns the pair of values that are stored. There is no
  other exit.
\<close>

definition calculateProfitWith ::
  "(number \<Rightarrow> number) \<Rightarrow> number \<Rightarrow> Trade list \<Rightarrow> number \<Rightarrow> number \<times> number" where
  "calculateProfitWith fl investment tradeList curPrice =
     (let l = replayWith fl tradeList;
          profit = (if num_gt (position l) (Fin 0)
                    then (let unrealizedPL =
                                fl (num_mul (fl (num_sub curPrice (averageEntryPrice l)))
                                            (position l))
                          in fl (num_add (currentProfit l) unrealizedPL))
                    else currentProfit l);
          totalValue = fl (num_add (totalReturned l) (fl (num_mul (position l) curPrice)));
          totalCost = investment;
          profitPercentage =
            fl (num_mul (fl (num_div (fl (num_sub totalValue totalCost)) totalCost)) (Fin 100))
      in (profit, profitPercentage))"

text \<open>The ledger in exact arithmetic: no result is rounded.\<close>

definition tradeStep :: "ledger \<Rightarrow> Trade \<Rightarrow> ledger" where
  "tradeStep l t = tradeStepWith (\<lambda>x. x) l t"

definition replayFrom :: "ledger \<Rightarrow> Trade list \<Rightarrow> ledger" where
  "replayFrom l tradeList = foldl tradeStep l tradeList"

definition replay :: "Trade list \<Rightarrow> ledger" where
  "replay tradeList = replayFrom ledger0 tradeList"

definition calculateProfit :: "number \<Rightarrow> Trade list \<Rightarrow> number \<Rightarrow> number \<times> number" where
  "calculateProfit investment tradeList curPrice =
     calculateProfitWith (\<lambda>x. x) investment tradeList curPrice"

section \<open>Session state and its handlers (trading-dashboard.tsx)\<close>

record price_point =
  point_price :: number
  point_timestamp :: int

text \<open>The state variables of the \<^verbatim>\<open>TradingDashboard\<close> component.\<close>

record dashboard =
  selectedStock :: "string option"
  stockData :: "StockData option"
  connected :: bool
  signal :: "Signal option"
  trades :: "Trade list"
  profit :: number
  profitPercent :: number
  initialInvestment :: number
  priceHistory :: "price_point list"
  signalHistory :: "Signal list"
  timeframe :: string
  useMockData :: bool


definition handleTimeframeSelect :: "string \<Rightarrow> dashboard \<Rightarrow> dashboard" where
  "handleTimeframeSelect newTimeframe s =
     s\<lparr>timeframe := newTimeframe, priceHistory := [], signalHistory := []\<rparr>"

definition onConnect :: "dashboard \<Rightarrow> dashboard" where
  "onConnect s = s\<lparr>connected := True\<rparr>"

definition onDisconnect :: "dashboard \<Rightarrow> dashboard" where
  "onDisconnect s = s\<lparr>connected := False\<rparr>"



text \<open>The payload of \<^verbatim>\<open>onMessage\<close>: \<^verbatim>\<open>data.stockData\<close> and \<^verbatim>\<open>data.signal\<close> (or null).\<close>

record message =
  data_stockData :: StockData
  data_signal :: "Signal option"

text \<open>\<^verbatim>\<open>xs.slice(-n)\<close>: the last \<open>n\<close> elements, all of them when there are fewer.\<close>

definition slice_last :: "nat \<Rightarrow> 'a list \<Rightarrow> 'a list" where
  "slice_last n xs = drop (length xs - n) xs"

text \<open>
  The trade that \<^verbatim>\<open>onMessage\<close> builds from a signal (the object literal
  \<^verbatim>\<open>newTrade\<close>), none for a HOLD signal; \<open>now\<close> is the reading of \<^verbatim>\<open>Date.now()\<close> there.
\<close>

definition newTrade :: "Signal \<Rightarrow> StockData \<Rightarrow> int \<Rightarrow> Trade option" where
  "newTrade sg sd now =
     (case signal_type sg of
        HOLD \<Rightarrow> None
      | BUY \<Rightarrow> Some \<lparr>trade_type = TradeBUY, price = currentPrice sd, timestamp = now,
                     quantity = Fin 1\<rparr>
      | SELL \<Rightarrow> Some \<lparr>trade_type = TradeSELL, price = currentPrice sd, timestamp = now,
                      quantity = Fin 1\<rparr>)"

text \<open>
  \<^verbatim>\<open>onMessage\<close>. \<open>now1\<close> and \<open>now2\<close> are its two readings of \<^verbatim>\<open>Date.now()\<close>, for the
  price point and for the trade. The handler is a closure made by the effect: the
  \<^verbatim>\<open>trades\<close> it reads (\<open>captured\<close>) is the trade log of the render in which the effect
  ran, while \<^verbatim>\<open>setTrades\<close>, \<^verbatim>\<open>setPriceHistory\<close> and \<^verbatim>\<open>setSignalHistory\<close> are functional
  updates of the current state. Toasts are presentation and are left out.
\<close>

definition onMessageWith ::
  "Trade list \<Rightarrow> int \<Rightarrow> int \<Rightarrow> message \<Rightarrow> dashboard \<Rightarrow> dashboard" where
  "onMessageWith captured now1 now2 data s =
     (let sd = data_stockData data;
          s1 = s\<lparr>stockData := Some sd,
                 priceHistory := slice_last 100
                   (priceHistory s @ [\<lparr>point_price = currentPrice sd, point_timestamp = now1\<rparr>])\<rparr>
      in case data_signal data of
           Some sg \<Rightarrow>
             (let s2 = s1\<lparr>signal := Some sg, signalHistory := signalHistory s1 @ [sg]\<rparr>
              in case newTrade sg sd now2 of
                   None \<Rightarrow> s2
                 | Some nt \<Rightarrow>
                     (let r = calculateProfit (initialInvestment s) (captured @ [nt])
                                (currentPrice sd)
                      in s2\<lparr>trades := trades s2 @ [nt], profit := fst r,
                            profitPercent := snd r\<rparr>))
         | None \<Rightarrow>
             (if 0 < length captured
              then (let r = calculateProfit (initialInvestment s) captured (currentPrice sd)
                    in s1\<lparr>profit := fst r, profitPercent := snd r\<rparr>)
              else s1))"

text \<open>
  The effect depends on \<^verbatim>\<open>trades\<close>, so after every render it installs a handler that
  has captured the current trade log. \<open>onMessage\<close> is that handler: the one that runs
  when the message arrives after the re-render that followed the last trade. A message
  that arrives before that re-render is handled by \<open>onMessageWith\<close> with an older log.
\<close>

definition onMessage :: "int \<Rightarrow> int \<Rightarrow> message \<Rightarrow> dashboard \<Rightarrow> dashboard" where
  "onMessage now1 now2 data s = onMessageWith (trades s) now1 now2 data s"

text \<open>A delivery is one call of \<^verbatim>\<open>onMessage\<close> with its two clock readings.\<close>

record delivery =
  del_now1 :: int
  del_now2 :: int
  del_data :: message

definition deliver :: "dashboard \<Rightarrow> delivery \<Rightarrow> dashboard" where
  "deliver s d = onMessage (del_now1 d) (del_now2 d) (del_data d) s"

definition deliverAll :: "dashboard \<Rightarrow> delivery list \<Rightarrow> dashboard" where
  "deliverAll s ds = foldl deliver s ds"

text \<open>The price point that a delivery appends to the history.\<close>

definition pointOf :: "delivery \<Rightarrow> price_point" where
  "pointOf d = \<lparr>point_price = currentPrice (data_stockData (del_data d)),
               point_timestamp = del_now1 d\<rparr>"




section \<open>Signal generator (socket.ts, mock feed)\<close>

text \<open>The classification of the random draw: lines 191 to 197 of \<^verbatim>\<open>generateSignal\<close>.\<close>

definition classify :: "real \<Rightarrow> signal_type" where
  "classify random = (if random < 0.15 then BUY else if random < 0.3 then SELL else HOLD)"

text \<open>
  \<^verbatim>\<open>generateSignal\<close>. Its reads of the environment are arguments, in the order the code
  makes them: \<open>now\<close> is \<^verbatim>\<open>Date.now()\<close> in the rate limit, \<open>random\<close> is
  \<^verbatim>\<open>Math.random()\<close>, \<open>now'\<close> is \<^verbatim>\<open>Date.now()\<close> in the returned object. The guard
  \<^verbatim>\<open>lastSignalTime && ...\<close> is JavaScript truthiness: \<^verbatim>\<open>undefined\<close> and \<^verbatim>\<open>0\<close> both skip
  the rate limit. \<^verbatim>\<open>lastSignal\<close> is an object or null.
\<close>

definition generateSignal ::
  "StockData \<Rightarrow> Signal option \<Rightarrow> int option \<Rightarrow> int \<Rightarrow> real \<Rightarrow> int \<Rightarrow> Signal option" where
  "generateSignal sd lastSignal lastSignalTime now random now' =
     (if (case lastSignalTime of None \<Rightarrow> False | Some t \<Rightarrow> t \<noteq> 0 \<and> now - t < 5000)
      then None
      else (let signalType = classify random
            in if (case lastSignal of None \<Rightarrow> False | Some ls \<Rightarrow> signalType = signal_type ls)
               then None
               else Some \<lparr>signal_type = signalType, signal_price = currentPrice sd,
                          signal_timestamp = now'\<rparr>))"

text \<open>
  The two variables of \<^verbatim>\<open>setupMockWebSocket\<close> that the generator reads, and one firing
  of its interval: generate, and remember the signal when there is one. The stock data
  of the firing (made by \<^verbatim>\<open>generateMockStockData\<close>) is taken as given.
\<close>

record feed =
  lastSignal :: "Signal option"
  lastSignalTime :: "int option"

definition feed0 :: feed where
  "feed0 = \<lparr>lastSignal = None, lastSignalTime = None\<rparr>"

record firing =
  fire_stockData :: StockData
  fire_now :: int
  fire_random :: real
  fire_now' :: int

definition intervalStep :: "feed \<Rightarrow> firing \<Rightarrow> feed \<times> Signal option" where
  "intervalStep f k =
     (let sg = generateSignal (fire_stockData k) (lastSignal f) (lastSignalTime f)
                 (fire_now k) (fire_random k) (fire_now' k)
      in case sg of
           Some g \<Rightarrow> (f\<lparr>lastSignal := Some g, lastSignalTime := Some (signal_timestamp g)\<rparr>, sg)
         | None \<Rightarrow> (f, sg))"

text \<open>The signals of the messages sent by successive firings, null ones included.\<close>

fun intervalRun :: "feed \<Rightarrow> firing list \<Rightarrow> Signal option list" where
  "intervalRun f [] = []"
| "intervalRun f (k # ks) = snd (intervalStep f k) # intervalRun (fst (intervalStep f k)) ks"

text \<open>The variables of the feed after successive firings.\<close>

definition feedAfter :: "feed \<Rightarrow> firing list \<Rightarrow> feed" where
  "feedAfter f ks = foldl (\<lambda>g k. fst (intervalStep g k)) f ks"

text \<open>The signals that were emitted: the non-null ones, in order.\<close>

definition emitted :: "Signal option list \<Rightarrow> Signal list" where
  "emitted sgs = List.map_filter id sgs"

section \<open>Vocabulary of the properties\<close>

text \<open>A trade whose price and quantity are finite numbers, from its four components.\<close>

definition tradeOf :: "trade_type \<times> real \<times> real \<times> int \<Rightarrow> Trade" where
  "tradeOf x = (case x of (k, p, q, ts) \<Rightarrow>
     \<lparr>trade_type = k, price = Fin p, timestamp = ts, quantity = Fin q\<rparr>)"



definition finiteTrade :: "Trade \<Rightarrow> bool" where
  "finiteTrade t = (is_finite (price t) \<and> is_finite (quantity t))"





text \<open>Stock data for the instances: the mock feed's AAPL at its base price.\<close>

definition aapl :: StockData where
  "aapl = \<lparr>symbol = ''AAPL'', name = ''Apple Inc.'', currentPrice = Fin 180.5,
            previousPrice = Fin 180.5, change = Fin 0, changePercent = Fin 0\<rparr>"

text \<open>A dashboard with AAPL selected, connected, and nothing received yet.\<close>

definition fresh :: dashboard where
  "fresh = \<lparr>selectedStock = Some ''AAPL'', stockData = None, connected = True, signal = None,
             trades = [], profit = Fin 0, profitPercent = Fin 0, initialInvestment = Fin 10000,
             priceHistory = [], signalHistory = [], timeframe = ''5m'', useMockData = True\<rparr>"

text \<open>The kind of the remembered signal, as a list of at most one element.\<close>

definition lastKind :: "feed \<Rightarrow> signal_type list" where
  "lastKind f = (case lastSignal f of None \<Rightarrow> [] | Some ls \<Rightarrow> [signal_type ls])"

section \<open>Auxiliary facts\<close>

subsection \<open>The exact ledger, written out\<close>

lemma tradeStep_unfold:
  "tradeStep l t =
     (case trade_type t of
        TradeBUY \<Rightarrow>
          (let newShares = quantity t;
               newCost = num_mul (price t) newShares;
               invested = num_add (totalInvested l) newCost;
               avg = num_div (num_add (num_mul (averageEntryPrice l) (position l)) newCost)
                             (totalShares l t)
           in l\<lparr>totalInvested := invested, averageEntryPrice := avg,
                position := num_add (position l) newShares\<rparr>)
      | TradeSELL \<Rightarrow>
          (let saleValue = num_mul (price t) (quantity t);
               returned = num_add (totalReturned l) saleValue;
               costBasis = num_mul (averageEntryPrice l) (quantity t)
           in l\<lparr>totalReturned := returned,
                currentProfit := num_add (currentProfit l) (num_sub saleValue costBasis),
                position := num_sub (position l) (quantity t)\<rparr>))"
  by (simp add: tradeStep_def tradeStepWith_def)

lemma replayWith_exact: "replayWith (\<lambda>x. x) tradeList = replay tradeList"
proof -
  have "tradeStepWith (\<lambda>x. x) = tradeStep"
    by (rule ext, rule ext) (simp add: tradeStep_def)
  then show ?thesis by (simp add: replayWith_def replay_def replayFrom_def)
qed

lemma calculateProfit_unfold:
  "calculateProfit investment tradeList curPrice =
     (let l = replay tradeList;
          profit = (if num_gt (position l) (Fin 0)
                    then (let unrealizedPL =
                                num_mul (num_sub curPrice (averageEntryPrice l)) (position l)
                          in num_add (currentProfit l) unrealizedPL)
                    else currentProfit l);
          totalValue = num_add (totalReturned l) (num_mul (position l) curPrice);
          totalCost = investment;
          profitPercentage = num_mul (num_div (num_sub totalValue totalCost) totalCost) (Fin 100)
      in (profit, profitPercentage))"
  by (simp add: calculateProfit_def calculateProfitWith_def replayWith_exact)

subsection \<open>Rounding to binary64\<close>

lemmas binary64_simps = round64_def ilog2.simps rne_def pow2_def Let_def

lemma pow2_powi: "pow2 e = 2 powi e"
  by (simp add: pow2_def power_int_def power_one_over)

lemma pow2_Suc: "pow2 (e + 1) = 2 * pow2 e"
  by (simp add: pow2_powi power_int_add)

lemma pow2_pred: "pow2 (e - 1) = pow2 e / 2"
  using pow2_Suc[of "e - 1"] by simp

lemma ilog2_bounds: "0 < x \<Longrightarrow> pow2 (ilog2 x) \<le> x \<and> x < pow2 (ilog2 x + 1)"
proof (induction x rule: ilog2.induct)
  case (1 x)
  show ?case
  proof (cases "2 \<le> x")
    case True
    define e where "e = ilog2 (x / 2)"
    from True "1.prems" "1.IH"(1) have ih: "pow2 e \<le> x / 2 \<and> x / 2 < pow2 (e + 1)"
      by (simp add: e_def)
    from True "1.prems" have eq: "ilog2 x = e + 1"
      by (subst ilog2.simps) (simp add: e_def)
    have "pow2 (e + 1) = 2 * pow2 e" "pow2 (e + 1 + 1) = 2 * pow2 (e + 1)"
      by (rule pow2_Suc)+
    with ih show ?thesis unfolding eq by linarith
  next
    case False
    show ?thesis
    proof (cases "x < 1")
      case True
      define e where "e = ilog2 (x * 2)"
      from True False "1.prems" "1.IH"(2) have ih: "pow2 e \<le> x * 2 \<and> x * 2 < pow2 (e + 1)"
        by (simp add: e_def)
      from True False "1.prems" have eq: "ilog2 x = e - 1"
        by (subst ilog2.simps) (simp add: e_def)
      have "pow2 (e - 1) = pow2 e / 2" "pow2 (e - 1 + 1) = 2 * pow2 (e - 1)"
        by (rule pow2_pred, rule pow2_Suc)
      moreover have "pow2 (e + 1) = 2 * pow2 e" by (rule pow2_Suc)
      ultimately show ?thesis using ih unfolding eq by linarith
    next
      case nl: False
      with False "1.prems" have "ilog2 x = 0" by (subst ilog2.simps) simp
      with nl False show ?thesis by (simp add: pow2_def)
    qed
  qed
qed

text \<open>An integer of magnitude at most \<open>2 ^ 53\<close> is a double: rounding leaves it as it is.\<close>

lemma pow2_pos: "0 < pow2 e"
  by (simp add: pow2_def)

lemma pow2_mono: "a \<le> b \<Longrightarrow> pow2 a \<le> pow2 b"
  by (simp add: pow2_powi power_int_increasing)

lemma rne_of_int: "rne (of_int k) = k"
  by (simp add: rne_def)

lemma round64_of_int:
  assumes "\<bar>n\<bar> \<le> 2 ^ 53"
  shows "round64 (of_int n) = Fin (of_int n)"
proof (cases "n = 0")
  case True
  then show ?thesis by (simp add: round64_def)
next
  case False
  define a :: real where "a = \<bar>of_int n\<bar>"
  define e where "e = ilog2 a"
  from False have a1: "1 \<le> a" by (simp add: a_def)
  from assms have a53: "a \<le> 2 ^ 53"
    unfolding a_def by (metis of_int_abs of_int_le_iff of_int_numeral of_int_power)
  from a1 have "0 < a" by simp
  from ilog2_bounds[OF this] have b: "pow2 e \<le> a" "a < pow2 (e + 1)" by (simp_all add: e_def)
  have e0: "0 \<le> e"
  proof (rule ccontr)
    assume "\<not> 0 \<le> e"
    then have "e + 1 \<le> 0" by simp
    from pow2_mono[OF this] have "pow2 (e + 1) \<le> 1" by (simp add: pow2_def)
    with b(2) a1 show False by simp
  qed
  have e53: "e \<le> 53"
  proof (rule ccontr)
    assume "\<not> e \<le> 53"
    then have "54 \<le> e" by simp
    from pow2_mono[OF this] have "2 ^ 54 \<le> pow2 e" by (simp add: pow2_def)
    with b(1) a53 show False by simp
  qed
  obtain m :: nat where m: "e = int m" using e0 by (metis nat_0_le)
  with e53 have m53: "m \<le> 53" by simp
  have "\<exists>k::int. a / pow2 (e - 52) = of_int k"
  proof (cases "m \<le> 52")
    case True
    have "pow2 (e - 52) = 1 / 2 ^ (52 - m)"
      using True by (cases "m = 52") (simp_all add: pow2_def m nat_diff_distrib)
    then have "a / pow2 (e - 52) = of_int (\<bar>n\<bar> * 2 ^ (52 - m))"
      by (simp add: a_def)
    then show ?thesis by blast
  next
    case False
    with m53 have m': "m = 53" by simp
    then have "pow2 e = 2 ^ 53" by (simp add: m pow2_def)
    with b(1) a53 have "a = 2 ^ 53" by simp
    moreover have "pow2 (e - 52) = 2" by (simp add: m m' pow2_def)
    ultimately have "a / pow2 (e - 52) = of_int (2 ^ 52)" by simp
    then show ?thesis by blast
  qed
  then obtain k :: int where k: "a / pow2 (e - 52) = of_int k" by blast
  have y: "of_int (rne (a / pow2 (e - 52))) * pow2 (e - 52) = a"
    using pow2_pos[of "e - 52"] by (simp add: k rne_of_int) (metis k nonzero_divide_eq_eq less_irrefl)
  have big: "\<not> pow2 1024 \<le> a"
    using a53 by (simp add: pow2_def)
  have mx: "max e (- 1022) = e" using e0 by simp
  show ?thesis
    using False y big mx
    by (simp add: round64_def Let_def a_def[symmetric] e_def[symmetric])
       (simp add: a_def)
qed

text \<open>
  Samples of the rounding: one third, two ties between neighbouring doubles above
  \<open>2 ^ 53\<close> (each goes to the even significand), and a negative decimal.
\<close>

lemma round64_samples:
  "round64 (1 / 3) = Fin (6004799503160661 / 18014398509481984) \<and>
   round64 (2 ^ 53 + 1) = Fin (2 ^ 53) \<and>
   round64 (2 ^ 53 + 3) = Fin (2 ^ 53 + 4) \<and>
   round64 (- 7 / 100000) = Fin (- (2582544170319337 / 36893488147419103232))"
  by (simp add: binary64_simps)

subsection \<open>Evaluating the ledger in doubles\<close>


subsection \<open>The replay\<close>

lemma replay_Nil: "replay [] = ledger0"
  by (simp add: replay_def replayFrom_def)

lemma replay_snoc: "replay (tradeList @ [t]) = tradeStep (replay tradeList) t"
  by (simp add: replay_def replayFrom_def)






lemma num_le_not_gt: "num_le a (Fin 0) \<Longrightarrow> \<not> num_gt a (Fin 0)"
  by (cases a) (auto simp: num_gt_def)

subsection \<open>Trades of quantity 1\<close>

text \<open>
  The dashboard only makes trades of quantity 1. For a log of such trades, up to
  \<open>2 ^ 53\<close> of them, the position in doubles is an integer and is the position of the
  exact ledger.
\<close>

lemma replayWith_snoc:
  "replayWith fl (tradeList @ [t]) = tradeStepWith fl (replayWith fl tradeList) t"
  by (simp add: replayWith_def)

lemma position_tradeStepWith:
  "position (tradeStepWith fl l t) =
     (case trade_type t of
        TradeBUY \<Rightarrow> fl (num_add (position l) (quantity t))
      | TradeSELL \<Rightarrow> fl (num_sub (position l) (quantity t)))"
  by (simp add: tradeStepWith_def Let_def split: trade_type.splits)

lemma position_of_unit_trades:
  assumes "\<forall>t\<in>set tradeList. quantity t = Fin 1" "length tradeList \<le> 2 ^ 53"
  shows "\<exists>k::int. \<bar>k\<bar> \<le> int (length tradeList) \<and>
           position (replayWith fl64 tradeList) = Fin (of_int k) \<and>
           position (replay tradeList) = Fin (of_int k)"
  using assms
proof (induction tradeList rule: rev_induct)
  case Nil
  have "position (replayWith fl64 []) = Fin (of_int 0) \<and> position (replay []) = Fin (of_int 0)"
    by (simp add: replayWith_def replay_def replayFrom_def ledger0_def)
  then show ?case by (intro exI[of _ 0]) simp
next
  case (snoc t ts)
  from snoc.prems have q: "quantity t = Fin 1" and len: "length ts + 1 \<le> 2 ^ 53" by simp_all
  from snoc.IH snoc.prems obtain k :: int where
    k: "\<bar>k\<bar> \<le> int (length ts)" "position (replayWith fl64 ts) = Fin (of_int k)"
       "position (replay ts) = Fin (of_int k)"
    by auto
  define k' where "k' = (case trade_type t of TradeBUY \<Rightarrow> k + 1 | TradeSELL \<Rightarrow> k - 1)"
  have bound: "\<bar>k'\<bar> \<le> int (length (ts @ [t]))"
    using k(1) by (cases "trade_type t"; simp add: k'_def; linarith)
  from len have "int (length ts + 1) \<le> 2 ^ 53"
    by (metis of_nat_le_iff of_nat_numeral of_nat_power)
  with bound have "\<bar>k'\<bar> \<le> 2 ^ 53" by simp
  then have r: "round64 (of_int k') = Fin (of_int k')" by (rule round64_of_int)
  have 1: "position (replayWith fl64 (ts @ [t])) = Fin (of_int k')"
    using r by (simp add: replayWith_snoc position_tradeStepWith k(2) q k'_def num_sub_def
                  split: trade_type.splits)
  have 2: "position (replay (ts @ [t])) = Fin (of_int k')"
    by (simp add: replay_snoc tradeStep_def position_tradeStepWith k(3) q k'_def num_sub_def
          split: trade_type.splits)
  from bound 1 2 show ?case by blast
qed

subsection \<open>Logs of BUY trades\<close>



subsection \<open>Covered sells\<close>


subsection \<open>Net position\<close>



subsection \<open>The initial investment is never assigned\<close>




subsection \<open>The bounded price history\<close>

lemma slice_last_length: "length (slice_last n xs) = min n (length xs)"
  by (simp add: slice_last_def) 

lemma slice_last_snoc:
  "slice_last n (slice_last n xs @ [a]) = slice_last n (xs @ [a])"
proof -
  have "Suc (length xs) - (length xs - n + n) + (length xs - n) = Suc (length xs) - n"
    by arith
  then show ?thesis by (simp add: slice_last_def)
qed

lemma priceHistory_onMessage:
  "priceHistory (onMessage now1 now2 data s) =
     slice_last 100 (priceHistory s @
       [\<lparr>point_price = currentPrice (data_stockData data), point_timestamp = now1\<rparr>])"
  by (simp add: onMessage_def onMessageWith_def Let_def split: option.splits)

lemma priceHistory_deliver:
  "priceHistory (deliver s d) = slice_last 100 (priceHistory s @ [pointOf d])"
  by (simp add: deliver_def pointOf_def priceHistory_onMessage)

lemma priceHistory_deliverAll:
  "ds \<noteq> [] \<Longrightarrow>
   priceHistory (deliverAll s ds) = slice_last 100 (priceHistory s @ map pointOf ds)"
proof (induction ds rule: rev_induct)
  case Nil
  then show ?case by simp
next
  case (snoc d ds)
  show ?case
  proof (cases "ds = []")
    case True
    then show ?thesis by (simp add: deliverAll_def priceHistory_deliver)
  next
    case False
    with snoc.IH have "priceHistory (deliverAll s ds) = slice_last 100 (priceHistory s @ map pointOf ds)"
      by simp
    then show ?thesis
      by (simp add: deliverAll_def priceHistory_deliver slice_last_snoc)
  qed
qed

subsection \<open>Runs of the mock feed\<close>

lemma emitted_simps:
  "emitted [] = []" "emitted (None # xs) = emitted xs" "emitted (Some g # xs) = g # emitted xs"
  by (simp_all add: emitted_def map_filter_simps)

lemma generateSignal_Some_kind:
  "generateSignal sd (Some ls) lt now r now' = Some g \<Longrightarrow> signal_type g \<noteq> signal_type ls"
  by (auto simp: generateSignal_def Let_def split: if_splits)

lemma run_distinct_from:
  "distinct_adj (lastKind f @ map signal_type (emitted (intervalRun f ks)))"
proof (induction ks arbitrary: f)
  case Nil
  show ?case by (simp add: emitted_simps lastKind_def split: option.splits)
next
  case (Cons k ks)
  let ?sg = "generateSignal (fire_stockData k) (lastSignal f) (lastSignalTime f)
                 (fire_now k) (fire_random k) (fire_now' k)"
  show ?case
  proof (cases ?sg)
    case None
    then have "intervalStep f k = (f, None)" by (simp add: intervalStep_def Let_def)
    with Cons.IH[of f] show ?thesis by (simp add: emitted_simps)
  next
    case (Some g)
    let ?f = "f\<lparr>lastSignal := Some g, lastSignalTime := Some (signal_timestamp g)\<rparr>"
    from Some have st: "intervalStep f k = (?f, Some g)" by (simp add: intervalStep_def Let_def)
    have lk: "lastKind ?f = [signal_type g]" by (simp add: lastKind_def)
    from Cons.IH[of ?f] lk
    have d: "distinct_adj (signal_type g # map signal_type (emitted (intervalRun ?f ks)))" by simp
    show ?thesis
    proof (cases "lastSignal f")
      case None
      with d st show ?thesis by (simp add: emitted_simps lastKind_def)
    next
      case (Some ls)
      with \<open>?sg = Some g\<close> have "signal_type g \<noteq> signal_type ls"
        using generateSignal_Some_kind by metis
      with d st Some show ?thesis by (simp add: emitted_simps lastKind_def)
    qed
  qed
qed

lemma intervalStep_positive:
  assumes "\<forall>u. lastSignalTime f = Some u \<longrightarrow> 0 < u" "0 < fire_now' k"
  shows "\<forall>u. lastSignalTime (fst (intervalStep f k)) = Some u \<longrightarrow> 0 < u"
  using assms
  by (auto simp: intervalStep_def generateSignal_def Let_def split: option.splits if_splits)

lemma feedAfter_positive:
  "\<forall>u. lastSignalTime f = Some u \<longrightarrow> 0 < u \<Longrightarrow> \<forall>k\<in>set ks. 0 < fire_now' k \<Longrightarrow>
   \<forall>u. lastSignalTime (feedAfter f ks) = Some u \<longrightarrow> 0 < u"
proof (induction ks arbitrary: f)
  case Nil
  then show ?case by (simp add: feedAfter_def)
next
  case (Cons k ks)
  from Cons.prems have "\<forall>u. lastSignalTime (fst (intervalStep f k)) = Some u \<longrightarrow> 0 < u"
    by (intro intervalStep_positive) simp_all
  from Cons.IH[OF this] Cons.prems(2) show ?case by (simp add: feedAfter_def)
qed

lemma run_distinct: "distinct_adj (map signal_type (emitted (intervalRun f ks)))"
  using run_distinct_from[of f ks] by (auto simp: distinct_adj_append_iff)

section \<open>Position ledger\<close>










text \<open>
  Claim C9. When the replay of a trade log ends with a position that is zero or negative,
  the profit that \<^verbatim>\<open>calculateProfit\<close> stores is the realized profit accumulated by the
  loop, the same for every two current prices. The unrealized term is added exactly when
  the position is strictly positive.
\<close>

theorem flat_position_profit_ignores_price:
  "(num_le (position (replay tradeList)) (Fin 0) \<longrightarrow>
      fst (calculateProfit investment tradeList p1) =
        fst (calculateProfit investment tradeList p2) \<and>
      fst (calculateProfit investment tradeList p1) = currentProfit (replay tradeList)) \<and>
   (num_gt (position (replay tradeList)) (Fin 0) \<longrightarrow>
      fst (calculateProfit investment tradeList p1) =
        num_add (currentProfit (replay tradeList))
          (num_mul (num_sub p1 (averageEntryPrice (replay tradeList)))
                   (position (replay tradeList))))"
  by (auto simp: calculateProfit_unfold Let_def dest: num_le_not_gt)

text \<open>
  An instance: after BUY 1 at 100 and SELL 1 at 120 the position is 0, and the profit is
  20 at the prices 120 and 500 alike.
\<close>

theorem flat_position_profit_ignores_price_witness:
  "num_le (position (replay [tradeOf (TradeBUY, 100, 1, 0), tradeOf (TradeSELL, 120, 1, 1)]))
     (Fin 0) \<and>
   fst (calculateProfit (Fin 10000)
          [tradeOf (TradeBUY, 100, 1, 0), tradeOf (TradeSELL, 120, 1, 1)] (Fin 120)) =
   fst (calculateProfit (Fin 10000)
          [tradeOf (TradeBUY, 100, 1, 0), tradeOf (TradeSELL, 120, 1, 1)] (Fin 500)) \<and>
   fst (calculateProfit (Fin 10000)
          [tradeOf (TradeBUY, 100, 1, 0), tradeOf (TradeSELL, 120, 1, 1)] (Fin 120)) =
   currentProfit (replay [tradeOf (TradeBUY, 100, 1, 0), tradeOf (TradeSELL, 120, 1, 1)])"
proof -
  let ?log = "[tradeOf (TradeBUY, 100, 1, 0), tradeOf (TradeSELL, 120, 1, 1)]"
  have h: "num_le (position (replay ?log)) (Fin 0)"
    by (simp add: replay_def replayFrom_def tradeStep_unfold tradeOf_def Let_def
          totalShares_def ledger0_def num_sub_def)
  from flat_position_profit_ignores_price
         [where tradeList = ?log and investment = "Fin 10000" and ?p1.0 = "Fin 120"
            and ?p2.0 = "Fin 500"] h
  show ?thesis by blast
qed



section \<open>Trade executor and session\<close>

lemma trades_onMessage:
  "trades (onMessage now1 now2 data s) =
     trades s @ (case data_signal data of
                   None \<Rightarrow> []
                 | Some sg \<Rightarrow> (case newTrade sg (data_stockData data) now2 of
                                None \<Rightarrow> [] | Some t \<Rightarrow> [t]))"
  by (simp add: onMessage_def onMessageWith_def Let_def split: option.splits)

text \<open>
  Claim C4, as amended. The trade creation of \<^verbatim>\<open>onMessage\<close> returns none for a HOLD
  signal, and for a BUY or SELL signal a trade of the signal's kind and quantity 1 whose
  price is the current price of the message's stock data and whose timestamp is the clock
  reading at execution; \<^verbatim>\<open>onMessage\<close> appends exactly that trade to the log. The
  signal's own price and timestamp are not read. For a signal that the mock feed generated
  from the same stock data, the trade's price equals the signal's price.
\<close>

theorem newTrade_takes_current_price_and_clock:
  "(signal_type sg = HOLD \<longrightarrow> newTrade sg sd now = None) \<and>
   (signal_type sg = BUY \<longrightarrow>
      newTrade sg sd now =
        Some \<lparr>trade_type = TradeBUY, price = currentPrice sd, timestamp = now,
               quantity = Fin 1\<rparr>) \<and>
   (signal_type sg = SELL \<longrightarrow>
      newTrade sg sd now =
        Some \<lparr>trade_type = TradeSELL, price = currentPrice sd, timestamp = now,
               quantity = Fin 1\<rparr>) \<and>
   (data_signal data = Some sg \<longrightarrow>
      trades (onMessage now1 now data s) =
        trades s @ (case newTrade sg (data_stockData data) now of None \<Rightarrow> [] | Some t \<Rightarrow> [t])) \<and>
   (generateSignal sd ls lt n r n' = Some sg \<and> newTrade sg sd now = Some t \<longrightarrow>
      price t = signal_price sg)"
proof -
  have A: "signal_type sg = HOLD \<longrightarrow> newTrade sg sd now = None"
    by (simp add: newTrade_def)
  have B: "signal_type sg = BUY \<longrightarrow>
      newTrade sg sd now =
        Some \<lparr>trade_type = TradeBUY, price = currentPrice sd, timestamp = now,
               quantity = Fin 1\<rparr>"
    by (simp add: newTrade_def)
  have C: "signal_type sg = SELL \<longrightarrow>
      newTrade sg sd now =
        Some \<lparr>trade_type = TradeSELL, price = currentPrice sd, timestamp = now,
               quantity = Fin 1\<rparr>"
    by (simp add: newTrade_def)
  have D: "data_signal data = Some sg \<longrightarrow>
      trades (onMessage now1 now data s) =
        trades s @ (case newTrade sg (data_stockData data) now of None \<Rightarrow> [] | Some t \<Rightarrow> [t])"
    by (simp add: trades_onMessage)
  have E: "generateSignal sd ls lt n r n' = Some sg \<and> newTrade sg sd now = Some t \<longrightarrow>
      price t = signal_price sg"
    by (auto simp: generateSignal_def newTrade_def Let_def
          split: if_splits signal_type.splits)
  from A B C D E show ?thesis by blast
qed

text \<open>
  An instance: a BUY signal priced 100 and stamped 1000 arrives in a message whose current
  price is 180.5, and is executed at clock reading 2000.
\<close>

theorem newTrade_takes_current_price_and_clock_witness:
  "newTrade \<lparr>signal_type = BUY, signal_price = Fin 100, signal_timestamp = 1000\<rparr> aapl 2000 =
     Some \<lparr>trade_type = TradeBUY, price = currentPrice aapl, timestamp = 2000,
            quantity = Fin 1\<rparr> \<and>
   newTrade \<lparr>signal_type = HOLD, signal_price = Fin 100, signal_timestamp = 1000\<rparr> aapl 2000 =
     None"
proof -
  let ?b = "\<lparr>signal_type = BUY, signal_price = Fin 100, signal_timestamp = 1000\<rparr>"
  let ?h = "\<lparr>signal_type = HOLD, signal_price = Fin 100, signal_timestamp = 1000\<rparr>"
  have b: "signal_type ?b = BUY" and h: "signal_type ?h = HOLD" by simp_all
  note T = newTrade_takes_current_price_and_clock
  from T[where sg = ?b and sd = aapl and now = 2000] b
  have 1: "newTrade ?b aapl 2000 =
     Some \<lparr>trade_type = TradeBUY, price = currentPrice aapl, timestamp = 2000,
            quantity = Fin 1\<rparr>"
    by blast
  from T[where sg = ?h and sd = aapl and now = 2000] h
  have 2: "newTrade ?h aapl 2000 = None" by blast
  from 1 2 show ?thesis by blast
qed

text \<open>
  Claim C4 as stated fails: for that BUY signal, priced 100 and stamped 1000, the trade is
  priced 180.5 and stamped 2000, not priced 100 and stamped 1000.
\<close>

theorem newTrade_ignores_signal_price_and_timestamp:
  "newTrade \<lparr>signal_type = BUY, signal_price = Fin 100, signal_timestamp = 1000\<rparr> aapl 2000 =
     Some \<lparr>trade_type = TradeBUY, price = Fin 180.5, timestamp = 2000, quantity = Fin 1\<rparr> \<and>
   newTrade \<lparr>signal_type = BUY, signal_price = Fin 100, signal_timestamp = 1000\<rparr> aapl 2000 \<noteq>
     Some \<lparr>trade_type = TradeBUY, price = Fin 100, timestamp = 1000, quantity = Fin 1\<rparr>"
  by (simp add: newTrade_def aapl_def)

text \<open>
  Claim C5. \<^verbatim>\<open>handleTimeframeSelect\<close> empties the price history and the signal history
  and leaves the trade log, the profit and the profit percentage as they were, also after
  the disconnect and connect of the re-subscription. A recomputation over the trade log
  gives the same result after the change as before, and the next message without a
  signal, when there are trades, stores the profit computed from the whole trade log.
\<close>

theorem handleTimeframeSelect_keeps_trade_log:
  "priceHistory (handleTimeframeSelect tf s) = [] \<and>
   signalHistory (handleTimeframeSelect tf s) = [] \<and>
   trades (handleTimeframeSelect tf s) = trades s \<and>
   profit (handleTimeframeSelect tf s) = profit s \<and>
   profitPercent (handleTimeframeSelect tf s) = profitPercent s \<and>
   trades (onConnect (onDisconnect (handleTimeframeSelect tf s))) = trades s \<and>
   calculateProfit (initialInvestment (handleTimeframeSelect tf s))
       (trades (handleTimeframeSelect tf s)) cp =
     calculateProfit (initialInvestment s) (trades s) cp \<and>
   (data_signal data = None \<and> trades s \<noteq> [] \<longrightarrow>
      trades (onMessage now1 now2 data (handleTimeframeSelect tf s)) = trades s \<and>
      profit (onMessage now1 now2 data (handleTimeframeSelect tf s)) =
        fst (calculateProfit (initialInvestment s) (trades s)
               (currentPrice (data_stockData data))))"
  by (simp add: handleTimeframeSelect_def onConnect_def onDisconnect_def onMessage_def onMessageWith_def Let_def)

text \<open>
  An instance: a session with two trades, BUY at 100 and SELL at 120, changes to the
  timeframe 30m; both trades remain, and the next message without a signal stores the
  profit of 20 that they realized.
\<close>

theorem handleTimeframeSelect_keeps_trade_log_witness:
  "trades (handleTimeframeSelect ''30m''
     (fresh\<lparr>trades := [tradeOf (TradeBUY, 100, 1, 1), tradeOf (TradeSELL, 120, 1, 2)]\<rparr>)) =
     [tradeOf (TradeBUY, 100, 1, 1), tradeOf (TradeSELL, 120, 1, 2)] \<and>
   profit (onMessage 3 3 \<lparr>data_stockData = aapl, data_signal = None\<rparr>
     (handleTimeframeSelect ''30m''
        (fresh\<lparr>trades := [tradeOf (TradeBUY, 100, 1, 1), tradeOf (TradeSELL, 120, 1, 2)]\<rparr>))) =
     Fin 20"
proof -
  let ?log = "[tradeOf (TradeBUY, 100, 1, 1), tradeOf (TradeSELL, 120, 1, 2)]"
  let ?s = "fresh\<lparr>trades := ?log\<rparr>"
  let ?d = "\<lparr>data_stockData = aapl, data_signal = None\<rparr>"
  have h: "data_signal ?d = None \<and> trades ?s \<noteq> []" by simp
  have c: "fst (calculateProfit (initialInvestment ?s) (trades ?s)
                  (currentPrice (data_stockData ?d))) = Fin 20"
    by (simp add: calculateProfit_unfold replay_def replayFrom_def tradeStep_unfold tradeOf_def
          Let_def totalShares_def ledger0_def num_gt_def num_sub_def)
  from handleTimeframeSelect_keeps_trade_log
         [where s = ?s and tf = "''30m''" and data = ?d and ?now1.0 = 3 and ?now2.0 = 3] h
  have "trades (handleTimeframeSelect ''30m'' ?s) = trades ?s \<and>
        profit (onMessage 3 3 ?d (handleTimeframeSelect ''30m'' ?s)) =
          fst (calculateProfit (initialInvestment ?s) (trades ?s)
                 (currentPrice (data_stockData ?d)))"
    by blast
  with c show ?thesis by simp
qed

text \<open>
  Claim C8. After every delivered message the price history has at most 100 entries, and
  after any non-empty sequence of deliveries it is the last 100 entries of the earlier
  history followed by the delivered price points, in order of delivery. After 101
  deliveries into an empty history it holds the 100 most recent points: all but the first.
\<close>

theorem priceHistory_keeps_last_100:
  "length (priceHistory (deliver s d)) \<le> 100 \<and>
   (ds \<noteq> [] \<longrightarrow>
      priceHistory (deliverAll s ds) = slice_last 100 (priceHistory s @ map pointOf ds) \<and>
      length (priceHistory (deliverAll s ds)) \<le> 100) \<and>
   (priceHistory s = [] \<and> length ds = 101 \<longrightarrow>
      priceHistory (deliverAll s ds) = tl (map pointOf ds) \<and>
      length (priceHistory (deliverAll s ds)) = 100)"
proof -
  have A: "length (priceHistory (deliver s d)) \<le> 100"
    by (simp add: priceHistory_deliver slice_last_length)
  have B: "priceHistory (deliverAll s ds) = slice_last 100 (priceHistory s @ map pointOf ds) \<and>
      length (priceHistory (deliverAll s ds)) \<le> 100" if "ds \<noteq> []"
    using priceHistory_deliverAll[OF that, of s] by (simp add: slice_last_length)
  have C: "priceHistory (deliverAll s ds) = tl (map pointOf ds) \<and>
      length (priceHistory (deliverAll s ds)) = 100"
    if h: "priceHistory s = [] \<and> length ds = 101"
  proof -
    from h have ne: "ds \<noteq> []" by auto
    from priceHistory_deliverAll[OF ne, of s] h
    have "priceHistory (deliverAll s ds) = drop 1 (map pointOf ds)"
      by (simp add: slice_last_def)
    with h show ?thesis by (simp add: drop_Suc)
  qed
  from A B C show ?thesis by blast
qed

text \<open>
  An instance: 101 deliveries to a fresh dashboard, stamped 0 to 100, leave the 100 points
  of the deliveries stamped 1 to 100.
\<close>

theorem priceHistory_keeps_last_100_witness:
  "priceHistory (deliverAll fresh
     (map (\<lambda>i. \<lparr>del_now1 = i, del_now2 = i,
                  del_data = \<lparr>data_stockData = aapl, data_signal = None\<rparr>\<rparr>) [0..100])) =
   map (\<lambda>i. \<lparr>point_price = Fin 180.5, point_timestamp = i\<rparr>) [1..100]"
proof -
  let ?f = "\<lambda>i. \<lparr>del_now1 = i, del_now2 = i,
                  del_data = \<lparr>data_stockData = aapl, data_signal = None\<rparr>\<rparr>"
  have h: "priceHistory fresh = [] \<and> length (map ?f [0..100]) = 101"
    by (simp add: fresh_def)
  have u: "[0..100] = 0 # [1..100]" by (simp add: upto_rec1)
  from priceHistory_keeps_last_100[where s = fresh and ds = "map ?f [0..100]"] h
  have "priceHistory (deliverAll fresh (map ?f [0..100])) = tl (map pointOf (map ?f [0..100]))"
    by blast
  also have "\<dots> = map (\<lambda>i. \<lparr>point_price = Fin 180.5, point_timestamp = i\<rparr>) [1..100]"
    unfolding u by (simp add: pointOf_def aapl_def)
  finally show ?thesis .
qed

section \<open>Signal generator\<close>

text \<open>
  Claim C6. When the classified kind of a call equals the kind of the last signal,
  \<^verbatim>\<open>generateSignal\<close> returns none, for HOLD as for BUY and SELL. In every run of the
  feed, which remembers each signal it emits, no two signals emitted one after the other
  have the same kind. When two successive firings both classify BUY the first is emitted
  and the second is suppressed; when they classify BUY and then SELL, at least 5000 ms
  after the first signal's timestamp, both are emitted.
\<close>

theorem generateSignal_suppresses_repeated_kind:
  "(classify r = signal_type ls \<longrightarrow> generateSignal sd (Some ls) lt now r now' = None) \<and>
   distinct_adj (map signal_type (emitted (intervalRun f ks))) \<and>
   (classify (fire_random k1) = BUY \<and> classify (fire_random k2) = BUY \<longrightarrow>
      intervalRun feed0 [k1, k2] =
        [Some \<lparr>signal_type = BUY, signal_price = currentPrice (fire_stockData k1),
                signal_timestamp = fire_now' k1\<rparr>, None]) \<and>
   (classify (fire_random k1) = BUY \<and> classify (fire_random k2) = SELL \<and>
    5000 \<le> fire_now k2 - fire_now' k1 \<longrightarrow>
      intervalRun feed0 [k1, k2] =
        [Some \<lparr>signal_type = BUY, signal_price = currentPrice (fire_stockData k1),
                signal_timestamp = fire_now' k1\<rparr>,
         Some \<lparr>signal_type = SELL, signal_price = currentPrice (fire_stockData k2),
                signal_timestamp = fire_now' k2\<rparr>])"
proof -
  have A: "classify r = signal_type ls \<longrightarrow> generateSignal sd (Some ls) lt now r now' = None"
    by (simp add: generateSignal_def Let_def)
  have B: "distinct_adj (map signal_type (emitted (intervalRun f ks)))"
    by (rule run_distinct)
  have C: "classify (fire_random k1) = BUY \<and> classify (fire_random k2) = BUY \<longrightarrow>
      intervalRun feed0 [k1, k2] =
        [Some \<lparr>signal_type = BUY, signal_price = currentPrice (fire_stockData k1),
                signal_timestamp = fire_now' k1\<rparr>, None]"
    by (simp add: intervalStep_def generateSignal_def feed0_def Let_def)
  have D: "classify (fire_random k1) = BUY \<and> classify (fire_random k2) = SELL \<and>
    5000 \<le> fire_now k2 - fire_now' k1 \<longrightarrow>
      intervalRun feed0 [k1, k2] =
        [Some \<lparr>signal_type = BUY, signal_price = currentPrice (fire_stockData k1),
                signal_timestamp = fire_now' k1\<rparr>,
         Some \<lparr>signal_type = SELL, signal_price = currentPrice (fire_stockData k2),
                signal_timestamp = fire_now' k2\<rparr>]"
    by (simp add: intervalStep_def generateSignal_def feed0_def Let_def)
  from A B C D show ?thesis by blast
qed

text \<open>
  An instance: firings at 1000000 and 1006000 ms. The draws 0.1 and 0.12 both classify
  BUY and only the first is emitted; the draws 0.1 and 0.2 classify BUY and SELL and both
  are emitted; a HOLD draw of 0.5 after a HOLD signal is suppressed.
\<close>

theorem generateSignal_suppresses_repeated_kind_witness:
  "intervalRun feed0
     [\<lparr>fire_stockData = aapl, fire_now = 1000000, fire_random = 0.1, fire_now' = 1000000\<rparr>,
      \<lparr>fire_stockData = aapl, fire_now = 1006000, fire_random = 0.12, fire_now' = 1006000\<rparr>] =
     [Some \<lparr>signal_type = BUY, signal_price = currentPrice aapl, signal_timestamp = 1000000\<rparr>,
      None] \<and>
   intervalRun feed0
     [\<lparr>fire_stockData = aapl, fire_now = 1000000, fire_random = 0.1, fire_now' = 1000000\<rparr>,
      \<lparr>fire_stockData = aapl, fire_now = 1006000, fire_random = 0.2, fire_now' = 1006000\<rparr>] =
     [Some \<lparr>signal_type = BUY, signal_price = currentPrice aapl, signal_timestamp = 1000000\<rparr>,
      Some \<lparr>signal_type = SELL, signal_price = currentPrice aapl, signal_timestamp = 1006000\<rparr>] \<and>
   generateSignal aapl
     (Some \<lparr>signal_type = HOLD, signal_price = Fin 180, signal_timestamp = 1000000\<rparr>)
     (Some 1000000) 1006000 0.5 1006000 = None"
proof -
  let ?k1 = "\<lparr>fire_stockData = aapl, fire_now = 1000000, fire_random = 0.1,
              fire_now' = 1000000\<rparr>"
  let ?k2 = "\<lparr>fire_stockData = aapl, fire_now = 1006000, fire_random = 0.12,
              fire_now' = 1006000\<rparr>"
  let ?k3 = "\<lparr>fire_stockData = aapl, fire_now = 1006000, fire_random = 0.2,
              fire_now' = 1006000\<rparr>"
  let ?h = "\<lparr>signal_type = HOLD, signal_price = Fin 180, signal_timestamp = 1000000\<rparr>"
  have bb: "classify (fire_random ?k1) = BUY \<and> classify (fire_random ?k2) = BUY"
    by (simp add: classify_def)
  have bs: "classify (fire_random ?k1) = BUY \<and> classify (fire_random ?k3) = SELL \<and>
            5000 \<le> fire_now ?k3 - fire_now' ?k1"
    by (simp add: classify_def)
  have hh: "classify 0.5 = signal_type ?h" by (simp add: classify_def)
  note T = generateSignal_suppresses_repeated_kind
  from T[where ?k1.0 = ?k1 and ?k2.0 = ?k2] bb
  have 1: "intervalRun feed0 [?k1, ?k2] =
     [Some \<lparr>signal_type = BUY, signal_price = currentPrice (fire_stockData ?k1),
             signal_timestamp = fire_now' ?k1\<rparr>, None]"
    by blast
  from T[where ?k1.0 = ?k1 and ?k2.0 = ?k3] bs
  have 2: "intervalRun feed0 [?k1, ?k3] =
     [Some \<lparr>signal_type = BUY, signal_price = currentPrice (fire_stockData ?k1),
             signal_timestamp = fire_now' ?k1\<rparr>,
      Some \<lparr>signal_type = SELL, signal_price = currentPrice (fire_stockData ?k3),
             signal_timestamp = fire_now' ?k3\<rparr>]"
    by blast
  from T[where r = "0.5" and ls = ?h and sd = aapl and lt = "Some 1000000" and now = 1006000
           and now' = 1006000] hh
  have 3: "generateSignal aapl (Some ?h) (Some 1000000) 1006000 0.5 1006000 = None"
    by blast
  from 1 2 3 show ?thesis by simp
qed

text \<open>
  Claim C7. The clock readings are values of \<^verbatim>\<open>Date.now()\<close>, milliseconds since 1970,
  and are positive. When \<^verbatim>\<open>lastSignalTime\<close> is set to such a reading and the clock
  reading of the call minus \<^verbatim>\<open>lastSignalTime\<close> is less than 5000 ms, \<^verbatim>\<open>generateSignal\<close>
  returns none. In every state that the feed reaches from its start, \<^verbatim>\<open>lastSignalTime\<close>
  is unset or such a reading, so there a firing less than 5000 ms after
  \<^verbatim>\<open>lastSignalTime\<close> emits nothing. When a firing emitted a signal and the next firing
  reads the clock 3000 ms after that signal's timestamp, the next firing emits nothing.
\<close>

theorem generateSignal_rate_limit:
  "(t \<noteq> 0 \<and> now - t < 5000 \<longrightarrow> generateSignal sd ls (Some t) now r now' = None) \<and>
   ((\<forall>k\<in>set ks. 0 < fire_now' k) \<and> lastSignalTime (feedAfter feed0 ks) = Some t \<and>
    fire_now k - t < 5000 \<longrightarrow>
      snd (intervalStep (feedAfter feed0 ks) k) = None) \<and>
   (snd (intervalStep f k1) = Some g \<and> signal_timestamp g \<noteq> 0 \<and>
    fire_now k2 - signal_timestamp g = 3000 \<longrightarrow>
      snd (intervalStep (fst (intervalStep f k1)) k2) = None)"
proof -
  have A: "t \<noteq> 0 \<and> now - t < 5000 \<longrightarrow> generateSignal sd ls (Some t) now r now' = None"
    for t now sd ls r now'
    by (simp add: generateSignal_def)
  have B: "snd (intervalStep (feedAfter feed0 ks) k) = None"
    if h: "(\<forall>k\<in>set ks. 0 < fire_now' k) \<and> lastSignalTime (feedAfter feed0 ks) = Some t \<and>
           fire_now k - t < 5000"
  proof -
    have "\<forall>u. lastSignalTime feed0 = Some u \<longrightarrow> 0 < u" by (simp add: feed0_def)
    with h feedAfter_positive[of feed0 ks] have "0 < t" by blast
    with h A[of t "fire_now k"] show ?thesis
      by (simp add: intervalStep_def Let_def)
  qed
  have C: "snd (intervalStep (fst (intervalStep f k1)) k2) = None"
    if h: "snd (intervalStep f k1) = Some g \<and> signal_timestamp g \<noteq> 0 \<and>
           fire_now k2 - signal_timestamp g = 3000"
  proof -
    from h have "fst (intervalStep f k1) =
        f\<lparr>lastSignal := Some g, lastSignalTime := Some (signal_timestamp g)\<rparr>"
      by (auto simp: intervalStep_def Let_def split: option.splits)
    with h show ?thesis
      by (simp add: intervalStep_def generateSignal_def Let_def)
  qed
  from A B C show ?thesis by blast
qed

text \<open>
  An instance: the first firing emits a BUY signal stamped 1000000; a second firing
  3000 ms later, with a draw that classifies SELL, emits nothing.
\<close>

theorem generateSignal_rate_limit_witness:
  "snd (intervalStep feed0
     \<lparr>fire_stockData = aapl, fire_now = 1000000, fire_random = 0.1, fire_now' = 1000000\<rparr>) =
     Some \<lparr>signal_type = BUY, signal_price = Fin 180.5, signal_timestamp = 1000000\<rparr> \<and>
   snd (intervalStep
     (fst (intervalStep feed0
        \<lparr>fire_stockData = aapl, fire_now = 1000000, fire_random = 0.1, fire_now' = 1000000\<rparr>))
     \<lparr>fire_stockData = aapl, fire_now = 1003000, fire_random = 0.2, fire_now' = 1003000\<rparr>) =
     None \<and>
   snd (intervalStep
     (feedAfter feed0
        [\<lparr>fire_stockData = aapl, fire_now = 1000000, fire_random = 0.1,
          fire_now' = 1000000\<rparr>])
     \<lparr>fire_stockData = aapl, fire_now = 1003000, fire_random = 0.2, fire_now' = 1003000\<rparr>) =
     None \<and>
   generateSignal aapl None (Some 1000000) 1003000 0.2 1003000 = None"
proof -
  let ?k1 = "\<lparr>fire_stockData = aapl, fire_now = 1000000, fire_random = 0.1,
              fire_now' = 1000000\<rparr>"
  let ?k2 = "\<lparr>fire_stockData = aapl, fire_now = 1003000, fire_random = 0.2,
              fire_now' = 1003000\<rparr>"
  let ?g = "\<lparr>signal_type = BUY, signal_price = Fin 180.5, signal_timestamp = 1000000\<rparr>"
  have e: "snd (intervalStep feed0 ?k1) = Some ?g"
    by (simp add: intervalStep_def generateSignal_def classify_def feed0_def aapl_def Let_def)
  have h: "snd (intervalStep feed0 ?k1) = Some ?g \<and> signal_timestamp ?g \<noteq> 0 \<and>
           fire_now ?k2 - signal_timestamp ?g = 3000"
    using e by simp
  have l: "(1000000 :: int) \<noteq> 0 \<and> (1003000 :: int) - 1000000 < 5000" by simp
  have m: "(\<forall>k\<in>set [?k1]. 0 < fire_now' k) \<and>
           lastSignalTime (feedAfter feed0 [?k1]) = Some 1000000 \<and>
           fire_now ?k2 - 1000000 < 5000"
    by (simp add: feedAfter_def intervalStep_def generateSignal_def classify_def feed0_def
          aapl_def Let_def)
  note T = generateSignal_rate_limit
  from T[where f = feed0 and ?k1.0 = ?k1 and ?k2.0 = ?k2 and g = ?g] h
  have 1: "snd (intervalStep (fst (intervalStep feed0 ?k1)) ?k2) = None" by blast
  from T[where t = 1000000 and now = 1003000 and sd = aapl and ls = None and r = "0.2"
           and now' = 1003000] l
  have 2: "generateSignal aapl None (Some 1000000) 1003000 0.2 1003000 = None" by blast
  from T[where ks = "[?k1]" and t = 1000000 and k = ?k2] m
  have 3: "snd (intervalStep (feedAfter feed0 [?k1]) ?k2) = None" by blast
  from e 1 2 3 show ?thesis by blast
qed

end
